theory Spec2Isabelle
  imports Main "HOL-Library.Char_ord" "HOL-Library.List_Lexorder" "HOL-Library.Sublist"
begin

section \<open>Python values, errors and string helpers\<close>

text \<open>
  The configuration values handled by \<^verbatim>\<open>mkdocs/config/config_options.py\<close> are the
  values a YAML file gives: None, strings, numbers, booleans, lists and mappings. The
  type tags are the ones that \<^verbatim>\<open>type(v)\<close> and \<^verbatim>\<open>isinstance\<close> tell apart in the source.
\<close>

datatype pytype = TNone | TStr | TBool | TInt | TList | TDict | TOrderedDict

datatype pyval =
    PNone
  | PStr string
  | PBool bool
  | PInt int
  | PList "pyval list"
  | PDict "(string \<times> pyval) list"
  | POrderedDict "(string \<times> pyval) list"

fun type_of :: "pyval \<Rightarrow> pytype" where
  "type_of PNone = TNone"
| "type_of (PStr _) = TStr"
| "type_of (PBool _) = TBool"
| "type_of (PInt _) = TInt"
| "type_of (PList _) = TList"
| "type_of (PDict _) = TDict"
| "type_of (POrderedDict _) = TOrderedDict"

text \<open>\<^verbatim>\<open>issubclass\<close>: bool derives from int, OrderedDict from dict.\<close>

definition issubclass :: "pytype \<Rightarrow> pytype \<Rightarrow> bool" where
  "issubclass t u \<longleftrightarrow> t = u \<or> (t = TBool \<and> u = TInt) \<or> (t = TOrderedDict \<and> u = TDict)"

text \<open>\<^verbatim>\<open>isinstance(value, types)\<close> with a type or a tuple of types.\<close>

definition isinstance :: "pyval \<Rightarrow> pytype list \<Rightarrow> bool" where
  "isinstance v ts \<longleftrightarrow> (\<exists>t \<in> set ts. issubclass (type_of v) t)"

text \<open>
  The argument of a \<^verbatim>\<open>str.format\<close> call, kept beside the template: the message of an
  error is the template and its arguments.
\<close>

datatype fmt_arg = ATypes "pytype list" | AType pytype | AVal pyval | AInt int

datatype error =
    ValidationError string "fmt_arg list"
  | TypeError
  | AttributeError
  | KeyError string
  | ValueError
  | IndexError

text \<open>\<^verbatim>\<open>len(value)\<close>: a TypeError on a value that has no length.\<close>

fun py_len :: "pyval \<Rightarrow> error + nat" where
  "py_len (PStr s) = Inr (length s)"
| "py_len (PList xs) = Inr (length xs)"
| "py_len (PDict kvs) = Inr (length kvs)"
| "py_len (POrderedDict kvs) = Inr (length kvs)"
| "py_len _ = Inl TypeError"

definition is_upper :: "char \<Rightarrow> bool" where
  "is_upper c \<longleftrightarrow> 65 \<le> (of_char c :: nat) \<and> (of_char c :: nat) \<le> 90"

definition is_lower :: "char \<Rightarrow> bool" where
  "is_lower c \<longleftrightarrow> 97 \<le> (of_char c :: nat) \<and> (of_char c :: nat) \<le> 122"

definition is_digit :: "char \<Rightarrow> bool" where
  "is_digit c \<longleftrightarrow> 48 \<le> (of_char c :: nat) \<and> (of_char c :: nat) \<le> 57"

definition to_lower :: "char \<Rightarrow> char" where
  "to_lower c = (if is_upper c then char_of (of_char c + 32 :: nat) else c)"

definition to_upper :: "char \<Rightarrow> char" where
  "to_upper c = (if is_lower c then char_of (of_char c - 32 :: nat) else c)"

text \<open>\<^verbatim>\<open>str.lower()\<close> on ASCII text.\<close>

definition lower :: "string \<Rightarrow> string" where
  "lower s = map to_lower s"

text \<open>
  \<^verbatim>\<open>str.title()\<close>: a cased character that follows an uncased one (or starts the string)
  is made upper case, every other cased character lower case.
\<close>

fun title_from :: "bool \<Rightarrow> string \<Rightarrow> string" where
  "title_from previous_is_cased [] = []"
| "title_from previous_is_cased (c # cs) =
     (if is_lower c then
        (if previous_is_cased then c else to_upper c) # title_from True cs
      else if is_upper c then
        (if previous_is_cased then to_lower c else c) # title_from True cs
      else c # title_from False cs)"

definition title :: "string \<Rightarrow> string" where
  "title s = title_from False s"

text \<open>\<^verbatim>\<open>s.split(sep)\<close> for a separator of one character: never an empty list.\<close>

fun split_on :: "char \<Rightarrow> string \<Rightarrow> string list" where
  "split_on sep [] = [[]]"
| "split_on sep (c # cs) =
     (if c = sep then [] # split_on sep cs
      else (case split_on sep cs of
              [] \<Rightarrow> [[c]]
            | w # ws \<Rightarrow> (c # w) # ws))"

text \<open>\<^verbatim>\<open>sep.join(parts)\<close>.\<close>

fun join_str :: "string \<Rightarrow> string list \<Rightarrow> string" where
  "join_str sep [] = []"
| "join_str sep [x] = x"
| "join_str sep (x # y # ys) = x @ sep @ join_str sep (y # ys)"

text \<open>\<^verbatim>\<open>s.startswith(p)\<close>.\<close>

definition startswith :: "string \<Rightarrow> string \<Rightarrow> bool" where
  "startswith s p \<longleftrightarrow> take (length p) s = p"

text \<open>\<^verbatim>\<open>s.find(c)\<close> and \<^verbatim>\<open>s.rfind(c)\<close> for one character, None for -1.\<close>

fun find_char :: "char \<Rightarrow> string \<Rightarrow> nat option" where
  "find_char c [] = None"
| "find_char c (d # ds) =
     (if c = d then Some 0 else map_option Suc (find_char c ds))"

fun rfind_char :: "char \<Rightarrow> string \<Rightarrow> nat option" where
  "rfind_char c [] = None"
| "rfind_char c (d # ds) =
     (case rfind_char c ds of
        Some i \<Rightarrow> Some (Suc i)
      | None \<Rightarrow> (if c = d then Some 0 else None))"

section \<open>The library functions the options call\<close>

subsection \<open>posixpath\<close>

definition isabs :: "string \<Rightarrow> bool" where
  "isabs s \<longleftrightarrow> startswith s ''/''"

text \<open>\<^verbatim>\<open>os.path.join(a, *p)\<close>: an absolute component discards what came before it.\<close>

definition join2 :: "string \<Rightarrow> string \<Rightarrow> string" where
  "join2 path b =
     (if startswith b ''/'' then b
      else if path = [] \<or> last path = CHR ''/'' then path @ b
      else path @ ''/'' @ b)"

definition join :: "string \<Rightarrow> string list \<Rightarrow> string" where
  "join a p = foldl join2 a p"

text \<open>One round of the loop of \<^verbatim>\<open>os.path.normpath\<close> over the components.\<close>

definition normpath_step :: "nat \<Rightarrow> string list \<Rightarrow> string \<Rightarrow> string list" where
  "normpath_step initial_slashes new_comps part =
     (if part = [] \<or> part = ''.'' then new_comps
      else if part \<noteq> ''..'' \<or> (initial_slashes = 0 \<and> new_comps = [])
              \<or> (new_comps \<noteq> [] \<and> last new_comps = ''..'')
        then new_comps @ [part]
      else if new_comps \<noteq> [] then butlast new_comps
      else new_comps)"

definition normpath :: "string \<Rightarrow> string" where
  "normpath path =
     (if path = [] then ''.''
      else
        let initial_slashes =
              (if startswith path ''/'' then
                 (if startswith path ''//'' \<and> \<not> startswith path ''///'' then 2 else 1)
               else 0);
            comps = foldl (normpath_step initial_slashes) [] (split_on (CHR ''/'') path);
            p = replicate initial_slashes (CHR ''/'') @ join_str ''/'' comps
        in if p = [] then ''.'' else p)"

text \<open>
  \<^verbatim>\<open>os.path.splitext(p)[0]\<close>: the extension starts at the last dot of the last
  component, unless that component has only dots before it.
\<close>

definition splitext_root :: "string \<Rightarrow> string" where
  "splitext_root p =
     (let filenameIndex = (case rfind_char (CHR ''/'') p of None \<Rightarrow> 0 | Some i \<Rightarrow> Suc i)
      in case rfind_char (CHR ''.'') p of
           None \<Rightarrow> p
         | Some dotIndex \<Rightarrow>
             (if filenameIndex \<le> dotIndex
                 \<and> (\<exists>c \<in> set (take (dotIndex - filenameIndex) (drop filenameIndex p)).
                       c \<noteq> CHR ''.'')
              then take dotIndex p else p))"

text \<open>
  \<^verbatim>\<open>os.path.dirname(p)\<close>: everything up to the last slash, without trailing slashes
  unless it is the root.
\<close>

definition dirname :: "string \<Rightarrow> string" where
  "dirname p =
     (let head = (case rfind_char (CHR ''/'') p of None \<Rightarrow> [] | Some i \<Rightarrow> take (Suc i) p)
      in if head \<noteq> [] \<and> head \<noteq> replicate (length head) (CHR ''/'')
         then rev (dropWhile (\<lambda>c. c = CHR ''/'') (rev head)) else head)"

subsection \<open>urllib.parse\<close>

text \<open>
  The two components of \<^verbatim>\<open>urlparse(url)\<close> that the options read. The scheme is the
  text before the first colon when that text is not empty and has scheme characters
  only; the network location follows a leading \<^verbatim>\<open>//\<close> and ends at the first of
  \<^verbatim>\<open>/\<close>, \<^verbatim>\<open>?\<close> and \<^verbatim>\<open>#\<close>. Unbalanced square brackets in it are a ValueError, a
  value that is not a string an AttributeError.
\<close>

record url_parts =
  scheme :: string
  netloc :: string

definition scheme_char :: "char \<Rightarrow> bool" where
  "scheme_char c \<longleftrightarrow> is_lower c \<or> is_upper c \<or> is_digit c \<or> c \<in> set ''+-.''"

definition urlsplit :: "string \<Rightarrow> error + url_parts" where
  "urlsplit url =
     (let (sch, rest) =
            (case find_char (CHR '':'') url of
               None \<Rightarrow> ([], url)
             | Some i \<Rightarrow>
                 (if 0 < i \<and> list_all scheme_char (take i url)
                  then (lower (take i url), drop (Suc i) url)
                  else ([], url)))
      in if startswith rest ''//'' then
           (let loc = takeWhile (\<lambda>c. c \<notin> set ''/?#'') (drop 2 rest)
            in if (CHR ''['' \<in> set loc \<and> CHR '']'' \<notin> set loc)
                  \<or> (CHR '']'' \<in> set loc \<and> CHR ''['' \<notin> set loc)
               then Inl ValueError
               else Inr \<lparr>scheme = sch, netloc = loc\<rparr>)
         else Inr \<lparr>scheme = sch, netloc = []\<rparr>)"

fun urlparse :: "pyval \<Rightarrow> error + url_parts" where
  "urlparse (PStr url) = urlsplit url"
| "urlparse _ = Inl AttributeError"

subsection \<open>The environment\<close>

text \<open>
  A directory as \<^verbatim>\<open>os.walk\<close> sees it: the names of its files and its subdirectories,
  both in the order \<^verbatim>\<open>os.listdir\<close> gives them.
\<close>

datatype fs_dir = Folder (filenames: "string list") (subdirs: "(string \<times> fs_dir) list")

text \<open>
  What the module reads from outside: the working directory and the file system, its own
  location (\<^verbatim>\<open>__file__\<close>), and the functions of \<^verbatim>\<open>mkdocs.utils\<close> and \<^verbatim>\<open>mkdocs.legacy\<close>
  it calls, whose code is in other modules.
\<close>

record env =
  getcwd :: string
  isdir :: "string \<Rightarrow> bool"
  listing :: "string \<Rightarrow> fs_dir option"
  module_file :: string
  get_theme_names :: "string list"
  is_markdown_file :: "string \<Rightarrow> bool"
  nest_paths :: "string list \<Rightarrow> pyval"
  pages_compat_shim :: "pyval \<Rightarrow> error + pyval"

definition abspath :: "env \<Rightarrow> string \<Rightarrow> string" where
  "abspath e path = normpath (if isabs path then path else join (getcwd e) [path])"

text \<open>
  \<^verbatim>\<open>os.walk(top)\<close>, top down: the directory itself, then each subdirectory in turn with
  all that is below it. The directory path is kept as the list of names below the top.
\<close>

fun os_walk :: "string list \<Rightarrow> fs_dir \<Rightarrow> (string list \<times> string list) list" where
  "os_walk dirpath (Folder fnames dirs) =
     (dirpath, fnames) # concat (map (\<lambda>(name, d). os_walk (dirpath @ [name]) d) dirs)"

section \<open>Options and their validation\<close>

text \<open>
  The classes of the module, each with the arguments of its constructor beyond
  \<^verbatim>\<open>default\<close> and \<^verbatim>\<open>required\<close>: the accepted types and the length of Type, the
  \<^verbatim>\<open>exists\<close> flag and the length of the Dir classes (their type is
  \<^verbatim>\<open>six.string_types\<close>), the file predicate of Extras, the threshold of NumPages.
\<close>

datatype option_class =
    BaseConfigOption
  | Type "pytype list" "int option"
  | URL
  | RepoURL
  | Dir bool "int option"
  | SiteDir bool "int option"
  | ThemeDir bool "int option"
  | Theme
  | Extras "string \<Rightarrow> bool"
  | Pages
  | NumPages int

record config_option =
  default_value :: pyval
  required :: bool
  option_class :: option_class

definition string_types :: "pytype list" where
  "string_types = [TStr]"

definition type_run_validation :: "pytype list \<Rightarrow> int option \<Rightarrow> pyval \<Rightarrow> error + pyval" where
  "type_run_validation types len value =
     (if \<not> isinstance value types then
        Inl (ValidationError ''Expected type: {0} but recieved: {1}''
               [ATypes types, AType (type_of value)])
      else
        (case len of
           None \<Rightarrow> Inr value
         | Some l \<Rightarrow>
             (case py_len value of
                Inl e \<Rightarrow> Inl e
              | Inr n \<Rightarrow>
                  (if int n \<noteq> l then
                     Inl (ValidationError
                       ''Expected type: {0} with lenght {2} but recieved: {1} with length {3}''
                       [ATypes types, AVal value, AInt l, AInt (int n)])
                   else Inr value))))"

text \<open>Only AttributeError and TypeError of the parser are turned into a ValidationError.\<close>

definition url_run_validation :: "pyval \<Rightarrow> error + pyval" where
  "url_run_validation value =
     (case urlparse value of
        Inl e \<Rightarrow>
          (if e = AttributeError \<or> e = TypeError
           then Inl (ValidationError ''Unable to parse the URL.'' [])
           else Inl e)
      | Inr parsed_url \<Rightarrow>
          (if scheme parsed_url \<noteq> [] then Inr value
           else Inl (ValidationError
                  ''The URL isn't valid, it should include the http:// (scheme)'' [])))"

definition dir_run_validation :: "env \<Rightarrow> bool \<Rightarrow> int option \<Rightarrow> pyval \<Rightarrow> error + pyval" where
  "dir_run_validation e exists len value =
     (case type_run_validation string_types len value of
        Inl err \<Rightarrow> Inl err
      | Inr v \<Rightarrow>
          (case v of
             PStr path \<Rightarrow>
               (if exists \<and> \<not> isdir e path then
                  Inl (ValidationError ''The path {0} doesn't exist'' [AVal v])
                else Inr (PStr (abspath e path)))
           | _ \<Rightarrow> Inl TypeError))"

definition theme_run_validation :: "env \<Rightarrow> pyval \<Rightarrow> error + pyval" where
  "theme_run_validation e value =
     (if value \<in> set (map PStr (get_theme_names e)) then Inr value
      else Inl (ValidationError ''Unrecognised theme.'' []))"

text \<open>What \<^verbatim>\<open>Theme.run_validation\<close> appends to the warnings of the option.\<close>

definition theme_warnings :: "env \<Rightarrow> pyval \<Rightarrow> (string \<times> string \<times> fmt_arg list) list" where
  "theme_warnings e value =
     (if value \<in> set (map PStr (get_theme_names e))
         \<and> value \<notin> set [PStr ''mkdocs'', PStr ''readthedocs'']
      then [(''theme'',
             ''The theme '{0}' will be removed in an upcoming MkDocs release. See http://www.mkdocs.org/about/release-notes/ for more details'',
             [AVal value])]
      else [])"

definition extras_run_validation :: "pyval \<Rightarrow> error + pyval" where
  "extras_run_validation value =
     (if isinstance value [TList] then Inr value
      else Inl (ValidationError ''Expected a list, got {0}'' [AType (type_of value)]))"

text \<open>
  \<^verbatim>\<open>Pages.run_validation\<close>. The bare \<^verbatim>\<open>return\<close> on an empty list gives None; the set of
  the entries' types is compared with the two accepted shapes, the current one first.
\<close>

definition pages_run_validation :: "env \<Rightarrow> pyval \<Rightarrow> error + pyval" where
  "pages_run_validation e value =
     (case value of
        PList entries \<Rightarrow>
          (if length entries = 0 then Inr PNone
           else
             (let config_types = set (map type_of entries)
              in if config_types \<subseteq> set [TStr, TOrderedDict] then Inr value
                 else if config_types \<subseteq> set [TStr, TList] then pages_compat_shim e value
                 else Inl (ValidationError ''Invalid pages config.'' [])))
      | _ \<Rightarrow> Inl (ValidationError ''Expected a list, got {0}'' [AType (type_of value)]))"

text \<open>The method \<^verbatim>\<open>run_validation\<close> of each class, inherited where it is not overridden.\<close>

fun run_validation :: "env \<Rightarrow> option_class \<Rightarrow> pyval \<Rightarrow> error + pyval" where
  "run_validation e BaseConfigOption value = Inr value"
| "run_validation e (Type types len) value = type_run_validation types len value"
| "run_validation e URL value = url_run_validation value"
| "run_validation e RepoURL value = url_run_validation value"
| "run_validation e (Dir exists len) value = dir_run_validation e exists len value"
| "run_validation e (SiteDir exists len) value = dir_run_validation e exists len value"
| "run_validation e (ThemeDir exists len) value = dir_run_validation e exists len value"
| "run_validation e Theme value = theme_run_validation e value"
| "run_validation e (Extras file_match) value = extras_run_validation value"
| "run_validation e Pages value = pages_run_validation e value"
| "run_validation e (NumPages at_lest) value = Inr value"

text \<open>
  \<^verbatim>\<open>BaseConfigOption.validate\<close>, with the \<^verbatim>\<open>run_validation\<close> of the subclass as an
  argument: None is replaced by the default, or returned as it is when the option is not
  required, or refused.
\<close>

definition validate_with ::
    "(pyval \<Rightarrow> error + pyval) \<Rightarrow> config_option \<Rightarrow> pyval \<Rightarrow> error + pyval" where
  "validate_with subclass_run_validation opt value =
     (if value = PNone then
        (if default_value opt \<noteq> PNone then subclass_run_validation (default_value opt)
         else if \<not> required opt then Inr PNone
         else Inl (ValidationError ''Required configuration not provided.'' []))
      else subclass_run_validation value)"

definition validate :: "env \<Rightarrow> config_option \<Rightarrow> pyval \<Rightarrow> error + pyval" where
  "validate e opt value = validate_with (run_validation e (option_class opt)) opt value"

section \<open>Post-validation\<close>

text \<open>
  The configuration object: the mapping from option names to values, and the list
  \<^verbatim>\<open>user_configs\<close> of the mappings that were loaded into it.
\<close>

record config =
  items :: "string \<rightharpoonup> pyval"
  user_configs :: "(string \<rightharpoonup> pyval) list"

text \<open>\<^verbatim>\<open>config[key]\<close>, \<^verbatim>\<open>config.get(key)\<close> and \<^verbatim>\<open>config[key] = value\<close>.\<close>

definition getitem :: "config \<Rightarrow> string \<Rightarrow> error + pyval" where
  "getitem cfg key = (case items cfg key of None \<Rightarrow> Inl (KeyError key) | Some v \<Rightarrow> Inr v)"

definition get :: "config \<Rightarrow> string \<Rightarrow> pyval" where
  "get cfg key = (case items cfg key of None \<Rightarrow> PNone | Some v \<Rightarrow> v)"

definition setitem :: "config \<Rightarrow> string \<Rightarrow> pyval \<Rightarrow> config" where
  "setitem cfg key value = cfg\<lparr>items := (items cfg)(key \<mapsto> value)\<rparr>"

subsection \<open>RepoURL\<close>

definition repo_url_post_validation :: "config \<Rightarrow> string \<Rightarrow> error + config" where
  "repo_url_post_validation cfg key_name =
     (case getitem cfg ''repo_url'' of
        Inl e \<Rightarrow> Inl e
      | Inr repo_url \<Rightarrow>
          (if repo_url \<noteq> PNone \<and> get cfg ''repo_name'' = PNone then
             (case urlparse repo_url of
                Inl e \<Rightarrow> Inl e
              | Inr parsed \<Rightarrow>
                  (let repo_host = lower (netloc parsed)
                   in if repo_host = ''github.com'' then
                        Inr (setitem cfg ''repo_name'' (PStr ''GitHub''))
                      else if repo_host = ''bitbucket.org'' then
                        Inr (setitem cfg ''repo_name'' (PStr ''Bitbucket''))
                      else
                        (case split_on (CHR ''.'') repo_host of
                           [] \<Rightarrow> Inl IndexError
                         | label # _ \<Rightarrow>
                             Inr (setitem cfg ''repo_name'' (PStr (title label))))))
           else Inr cfg))"

subsection \<open>SiteDir\<close>

text \<open>
  \<^verbatim>\<open>a.startswith(b)\<close> in the order Python evaluates it: the attribute of \<open>a\<close> is looked
  up before \<open>b\<close> is computed, and the call checks the type of \<open>b\<close>.
\<close>

definition py_startswith :: "pyval \<Rightarrow> (error + pyval) \<Rightarrow> error + bool" where
  "py_startswith a b =
     (case a of
        PStr s \<Rightarrow>
          (case b of
             Inl e \<Rightarrow> Inl e
           | Inr (PStr p) \<Rightarrow> Inr (startswith s p)
           | Inr _ \<Rightarrow> Inl TypeError)
      | _ \<Rightarrow> Inl AttributeError)"

definition site_dir_post_validation :: "config \<Rightarrow> string \<Rightarrow> error + config" where
  "site_dir_post_validation cfg key_name =
     (case getitem cfg ''docs_dir'' of
        Inl e \<Rightarrow> Inl e
      | Inr docs_dir \<Rightarrow>
          (case py_startswith docs_dir (getitem cfg ''site_dir'') of
             Inl e \<Rightarrow> Inl e
           | Inr True \<Rightarrow>
               Inl (ValidationError ''The 'docs_dir' can't be within the 'site_dir'.'' [])
           | Inr False \<Rightarrow>
               (case getitem cfg ''site_dir'' of
                  Inl e \<Rightarrow> Inl e
                | Inr site_dir \<Rightarrow>
                    (case py_startswith site_dir (getitem cfg ''docs_dir'') of
                       Inl e \<Rightarrow> Inl e
                     | Inr True \<Rightarrow>
                         Inl (ValidationError
                                ''The 'site_dir' can't be within the 'docs_dir'.'' [])
                     | Inr False \<Rightarrow> Inr cfg))))"

subsection \<open>ThemeDir\<close>

text \<open>\<^verbatim>\<open>os.path.join\<close> raises a TypeError on a component that is not a string.\<close>

definition py_join :: "string \<Rightarrow> pyval list \<Rightarrow> error + string" where
  "py_join a p =
     (if \<forall>v \<in> set p. type_of v = TStr
      then Inr (join a (map (\<lambda>v. case v of PStr s \<Rightarrow> s | _ \<Rightarrow> []) p))
      else Inl TypeError)"

definition package_dir :: "env \<Rightarrow> string" where
  "package_dir e = abspath e (join (dirname (module_file e)) [''..''])"

definition theme_dir_post_validation :: "env \<Rightarrow> config \<Rightarrow> string \<Rightarrow> error + config" where
  "theme_dir_post_validation e cfg key_name =
     (let theme_in_config = (\<exists>c \<in> set (user_configs cfg). c ''theme'' \<noteq> None)
      in case getitem cfg ''theme'' of
           Inl err \<Rightarrow> Inl err
         | Inr theme \<Rightarrow>
             (case py_join (package_dir e) [PStr ''themes'', theme] of
                Inl err \<Rightarrow> Inl err
              | Inr builtin \<Rightarrow>
                  (let theme_dir = [PStr builtin];
                       cfg1 = setitem cfg ''mkdocs_templates''
                                (PStr (join (package_dir e) [''templates'']))
                   in case getitem cfg1 ''theme_dir'' of
                        Inl err \<Rightarrow> Inl err
                      | Inr override \<Rightarrow>
                          (let theme_dir1 =
                                 (if override \<noteq> PNone then
                                    override # (if \<not> theme_in_config then [] else theme_dir)
                                  else theme_dir);
                               search_assets = join (package_dir e) [''assets'', ''search'']
                           in Inr (setitem cfg1 ''theme_dir''
                                     (PList (theme_dir1 @ [PStr search_assets])))))))"

subsection \<open>Extras, Pages and NumPages\<close>

text \<open>
  The path of a file relative to the top of the walk,
  \<^verbatim>\<open>normpath(relpath(join(dirpath, filename), docs_dir))\<close>: the names of the directories
  below the top and the file name, joined by slashes.
\<close>

definition relpath_in :: "string list \<Rightarrow> string \<Rightarrow> string" where
  "relpath_in dirpath filename = join_str ''/'' (dirpath @ [filename])"

text \<open>
  What the generator \<^verbatim>\<open>Extras.walk_docs_dir\<close> yields on a directory tree, as a list:
  for each directory of the walk, the relative paths of its files in sorted order of the
  file names, those that \<^verbatim>\<open>file_match\<close> accepts.
\<close>

definition walk_tree :: "(string \<Rightarrow> bool) \<Rightarrow> string list \<Rightarrow> fs_dir \<Rightarrow> string list" where
  "walk_tree file_match top_path tree =
     concat (map (\<lambda>(dirpath, fnames).
                    filter file_match (map (relpath_in dirpath) (sort fnames)))
                 (os_walk top_path tree))"

text \<open>A directory that does not exist yields nothing.\<close>

definition walk_docs_dir :: "env \<Rightarrow> (string \<Rightarrow> bool) \<Rightarrow> string \<Rightarrow> string list" where
  "walk_docs_dir e file_match docs_dir =
     (case listing e docs_dir of
        None \<Rightarrow> []
      | Some tree \<Rightarrow> walk_tree file_match [] tree)"

text \<open>\<^verbatim>\<open>os.walk\<close> needs a path: anything but a string is a TypeError.\<close>

definition py_walk_docs_dir ::
    "env \<Rightarrow> (string \<Rightarrow> bool) \<Rightarrow> pyval \<Rightarrow> error + string list" where
  "py_walk_docs_dir e file_match docs_dir =
     (case docs_dir of
        PStr d \<Rightarrow> Inr (walk_docs_dir e file_match d)
      | _ \<Rightarrow> Inl TypeError)"

definition extras_post_validation ::
    "env \<Rightarrow> (string \<Rightarrow> bool) \<Rightarrow> config \<Rightarrow> string \<Rightarrow> error + config" where
  "extras_post_validation e file_match cfg key_name =
     (case getitem cfg key_name of
        Inl err \<Rightarrow> Inl err
      | Inr current \<Rightarrow>
          (if current \<noteq> PNone then Inr cfg
           else
             (case getitem cfg ''docs_dir'' of
                Inl err \<Rightarrow> Inl err
              | Inr docs_dir \<Rightarrow>
                  (case py_walk_docs_dir e file_match docs_dir of
                     Inl err \<Rightarrow> Inl err
                   | Inr found \<Rightarrow>
                       Inr (setitem cfg key_name (PList (map PStr (foldl (\<lambda>extras filename. extras @ [filename]) [] found))))))))"

text \<open>The body of the loop of \<^verbatim>\<open>Pages.post_validation\<close>.\<close>

definition pages_step :: "string list \<Rightarrow> string \<Rightarrow> string list" where
  "pages_step pages filename =
     (if splitext_root filename = ''index'' then filename # pages
      else pages @ [filename])"

definition pages_post_validation :: "env \<Rightarrow> config \<Rightarrow> string \<Rightarrow> error + config" where
  "pages_post_validation e cfg key_name =
     (case getitem cfg key_name of
        Inl err \<Rightarrow> Inl err
      | Inr current \<Rightarrow>
          (if current \<noteq> PNone then Inr cfg
           else
             (case getitem cfg ''docs_dir'' of
                Inl err \<Rightarrow> Inl err
              | Inr docs_dir \<Rightarrow>
                  (case py_walk_docs_dir e (is_markdown_file e) docs_dir of
                     Inl err \<Rightarrow> Inl err
                   | Inr found \<Rightarrow>
                       Inr (setitem cfg key_name
                              (nest_paths e (foldl pages_step [] found)))))))"

text \<open>
  \<^verbatim>\<open>NumPages.post_validation\<close>: only the TypeError of \<^verbatim>\<open>len\<close> is caught.
\<close>

definition num_pages_post_validation :: "int \<Rightarrow> config \<Rightarrow> string \<Rightarrow> error + config" where
  "num_pages_post_validation at_lest cfg key_name =
     (case getitem cfg key_name of
        Inl err \<Rightarrow> Inl err
      | Inr current \<Rightarrow>
          (if current \<noteq> PNone then Inr cfg
           else
             (case getitem cfg ''pages'' of
                Inl err \<Rightarrow> Inl err
              | Inr pages \<Rightarrow>
                  (case py_len pages of
                     Inl err \<Rightarrow>
                       (if err = TypeError then Inr (setitem cfg key_name (PBool False))
                        else Inl err)
                   | Inr n \<Rightarrow> Inr (setitem cfg key_name (PBool (int n > at_lest)))))))"

text \<open>The method \<^verbatim>\<open>post_validation\<close> of each class; the base class does nothing.\<close>

fun post_validation :: "env \<Rightarrow> option_class \<Rightarrow> config \<Rightarrow> string \<Rightarrow> error + config" where
  "post_validation e RepoURL cfg key_name = repo_url_post_validation cfg key_name"
| "post_validation e (SiteDir exists len) cfg key_name = site_dir_post_validation cfg key_name"
| "post_validation e (ThemeDir exists len) cfg key_name =
     theme_dir_post_validation e cfg key_name"
| "post_validation e (Extras file_match) cfg key_name =
     extras_post_validation e file_match cfg key_name"
| "post_validation e Pages cfg key_name = pages_post_validation e cfg key_name"
| "post_validation e (NumPages at_lest) cfg key_name =
     num_pages_post_validation at_lest cfg key_name"
| "post_validation e _ cfg key_name = Inr cfg"

section \<open>Definitions used to state the properties\<close>

text \<open>The three classes that inherit \<^verbatim>\<open>Dir.run_validation\<close>.\<close>

fun is_dir_class :: "option_class \<Rightarrow> bool" where
  "is_dir_class (Dir exists len) = True"
| "is_dir_class (SiteDir exists len) = True"
| "is_dir_class (ThemeDir exists len) = True"
| "is_dir_class _ = False"

text \<open>\<^verbatim>\<open>NumPages()\<close> with the default of its constructor, \<^verbatim>\<open>at_lest=1\<close>.\<close>

definition num_pages_default :: option_class where
  "num_pages_default = NumPages 1"

text \<open>Whether a string occurs inside another one, as Python's \<^verbatim>\<open>p in s\<close> on two strings.\<close>

fun is_substring :: "string \<Rightarrow> string \<Rightarrow> bool" where
  "is_substring p [] = (p = [])"
| "is_substring p (c # cs) = (startswith (c # cs) p \<or> is_substring p cs)"

text \<open>A path is an index page when its name without the extension is \<^verbatim>\<open>index\<close>.\<close>

definition is_index :: "string \<Rightarrow> bool" where
  "is_index filename \<longleftrightarrow> splitext_root filename = ''index''"

text \<open>
  An environment to evaluate the definitions in: a project in \<^verbatim>\<open>/home/user/project\<close>
  whose \<^verbatim>\<open>docs\<close> directory holds \<^verbatim>\<open>index.md\<close>, \<^verbatim>\<open>a.md\<close> and \<^verbatim>\<open>b/c.md\<close>. The functions of the other modules are stand-ins: a file is a page when its
  name ends in \<^verbatim>\<open>.md\<close>, the nesting keeps the list flat, and the migration wraps what it
  is given into a mapping under the key \<^verbatim>\<open>migrated\<close>.
\<close>

definition sample_env :: env where
  "sample_env =
     \<lparr>getcwd = ''/home/user/project'',
      isdir = (\<lambda>p. p \<in> set [''docs'', ''/home/user/project/docs'']),
      listing = (\<lambda>p. if p = ''/home/user/project/docs''
                      then Some (Folder [''index.md'', ''a.md'']
                                   [(''b'', Folder [''c.md''] [])])
                      else None),
      module_file = ''/usr/lib/python3/site-packages/mkdocs/config/config_options.py'',
      get_theme_names = [''mkdocs'', ''readthedocs'', ''amelia''],
      is_markdown_file = (\<lambda>p. drop (length (splitext_root p)) p = ''.md''),
      nest_paths = (\<lambda>paths. PList (map PStr paths)),
      pages_compat_shim = (\<lambda>v. Inr (POrderedDict [(''migrated'', v)]))\<rparr>"

text \<open>
  \<^verbatim>\<open>os.path.basename(p)\<close>, the name of a file without its directories, to tell the name
  of a file from its path.
\<close>

definition basename :: "string \<Rightarrow> string" where
  "basename p = (case rfind_char (CHR ''/'') p of None \<Rightarrow> p | Some i \<Rightarrow> drop (Suc i) p)"

text \<open>The sample environment with another docs directory: \<^verbatim>\<open>a.md\<close> and \<^verbatim>\<open>b/index.md\<close>.\<close>

definition nested_index_env :: env where
  "nested_index_env =
     sample_env\<lparr>listing :=
       (\<lambda>p. if p = ''/home/user/project/docs''
            then Some (Folder [''a.md''] [(''b'', Folder [''index.md''] [])])
            else None)\<rparr>"

section \<open>Properties of validate\<close>

lemma abspath_sample_docs: "abspath sample_env ''docs'' = ''/home/user/project/docs''"
  by code_simp

lemma dir_run_validation_Inr:
  "dir_run_validation e ex len d = Inr v \<Longrightarrow> \<exists>p. d = PStr p \<and> v = PStr (abspath e p)"
  by (auto simp: dir_run_validation_def type_run_validation_def
           split: sum.splits pyval.splits if_splits option.splits)

lemma run_validation_Inr_same:
  "run_validation e c d = Inr v \<Longrightarrow> \<not> is_dir_class c \<Longrightarrow> c \<noteq> Pages \<Longrightarrow> v = d"
  by (cases c)
     (auto simp: type_run_validation_def url_run_validation_def theme_run_validation_def
                 extras_run_validation_def
           split: sum.splits if_splits option.splits)

text \<open>
  C2, as the code has it. With a declared default, \<^verbatim>\<open>validate\<close> on None gives what
  \<^verbatim>\<open>run_validation\<close> of the option's class gives on the default: the default goes through
  the check of the subclass. When that check succeeds, a Dir, SiteDir or ThemeDir option
  returns the absolute normalised path of its default, and every other class but Pages
  returns the default unchanged.
\<close>

theorem validate_absent_with_default:
  assumes "default_value opt \<noteq> PNone"
  shows "validate e opt PNone = run_validation e (option_class opt) (default_value opt)
         \<and> (validate e opt PNone = Inr v \<and> option_class opt \<noteq> Pages \<longrightarrow>
              (if is_dir_class (option_class opt)
               then \<exists>p. default_value opt = PStr p \<and> v = PStr (abspath e p)
               else v = default_value opt))"
proof -
  have eq: "validate e opt PNone = run_validation e (option_class opt) (default_value opt)"
    using assms by (simp add: validate_def validate_with_def)
  show ?thesis
  proof (intro conjI impI)
    show "validate e opt PNone = run_validation e (option_class opt) (default_value opt)"
      by (rule eq)
  next
    assume h: "validate e opt PNone = Inr v \<and> option_class opt \<noteq> Pages"
    show "if is_dir_class (option_class opt)
          then \<exists>p. default_value opt = PStr p \<and> v = PStr (abspath e p)
          else v = default_value opt"
    proof (cases "is_dir_class (option_class opt)")
      case True
      then obtain ex len where
        "option_class opt = Dir ex len \<or> option_class opt = SiteDir ex len
           \<or> option_class opt = ThemeDir ex len"
        by (cases "option_class opt") auto
      with h eq have "dir_run_validation e ex len (default_value opt) = Inr v"
        by auto
      from dir_run_validation_Inr [OF this] True show ?thesis
        by simp
    next
      case False
      with h eq run_validation_Inr_same [of e "option_class opt" "default_value opt" v]
      show ?thesis by simp
    qed
  qed
qed

text \<open>
  The theorem at a Dir option with the relative default \<^verbatim>\<open>docs\<close> and at a Type option
  with a string default.
\<close>

theorem validate_absent_with_default_witness:
  "validate sample_env
     \<lparr>default_value = PStr ''docs'', required = False, option_class = Dir False None\<rparr> PNone
     = Inr (PStr ''/home/user/project/docs'')
   \<and> validate sample_env
     \<lparr>default_value = PStr ''My Docs'', required = False, option_class = Type [TStr] None\<rparr>
     PNone
     = Inr (PStr ''My Docs'')"
  using
    validate_absent_with_default
      [of "\<lparr>default_value = PStr ''docs'', required = False, option_class = Dir False None\<rparr>"
          sample_env "PStr ''/home/user/project/docs''"]
    validate_absent_with_default
      [of "\<lparr>default_value = PStr ''My Docs'', required = False,
            option_class = Type [TStr] None\<rparr>"
          sample_env "PStr ''My Docs''"]
  by (simp add: dir_run_validation_def type_run_validation_def string_types_def
                isinstance_def issubclass_def abspath_sample_docs)

text \<open>
  C2 as the specification states it fails on a Dir option: the default \<^verbatim>\<open>docs\<close> comes
  back as an absolute path, not unchanged.
\<close>

theorem dir_default_counterexample:
  "validate sample_env
     \<lparr>default_value = PStr ''docs'', required = False, option_class = Dir False None\<rparr> PNone
   \<noteq> Inr (default_value
            \<lparr>default_value = PStr ''docs'', required = False,
              option_class = Dir False None\<rparr>)"
  by (simp add: validate_def validate_with_def dir_run_validation_def
                type_run_validation_def string_types_def isinstance_def issubclass_def
                abspath_sample_docs)

text \<open>
  C3. Without a declared default, \<^verbatim>\<open>validate\<close> on None raises the ValidationError
  \<^verbatim>\<open>Required configuration not provided.\<close> when the option is required and returns None
  when it is not, whatever the class of the option and the environment; the check of the
  subclass has no part in the result, which is the same for any \<^verbatim>\<open>run_validation\<close>.
\<close>

theorem validate_absent_without_default:
  assumes "default_value opt = PNone"
  shows "validate e opt PNone =
           (if required opt
            then Inl (ValidationError ''Required configuration not provided.'' [])
            else Inr PNone)
         \<and> validate_with subclass_run_validation opt PNone = validate e opt PNone"
  using assms by (simp add: validate_def validate_with_def)

theorem validate_absent_without_default_witness:
  "validate sample_env
     \<lparr>default_value = PNone, required = True, option_class = Dir True None\<rparr> PNone
     = Inl (ValidationError ''Required configuration not provided.'' [])
   \<and> validate sample_env
     \<lparr>default_value = PNone, required = False, option_class = Pages\<rparr> PNone
     = Inr PNone"
  using
    validate_absent_without_default
      [of "\<lparr>default_value = PNone, required = True, option_class = Dir True None\<rparr>"
          sample_env]
    validate_absent_without_default
      [of "\<lparr>default_value = PNone, required = False, option_class = Pages\<rparr>" sample_env]
  by simp

text \<open>
  C7. \<^verbatim>\<open>Pages.run_validation\<close> sorts a raw value into five cases, read in this order:
  a value that is not a list raises a ValidationError; the empty list gives None; a
  non-empty list of strings and ordered mappings only is returned as it is; a non-empty
  list of strings and lists only, not already of the former shape (it has a nested list),
  is handed to \<^verbatim>\<open>legacy.pages_compat_shim\<close>, whose result is returned; a list with an
  entry outside the first shape and an entry outside the second one (nested lists beside
  nested mappings, say) raises the ValidationError \<^verbatim>\<open>Invalid pages config.\<close>.
\<close>

theorem pages_run_validation_classes:
  "((\<forall>entries. value \<noteq> PList entries) \<longrightarrow>
      pages_run_validation e value
        = Inl (ValidationError ''Expected a list, got {0}'' [AType (type_of value)]))
   \<and> pages_run_validation e (PList []) = Inr PNone
   \<and> (entries \<noteq> []
        \<and> (\<forall>x \<in> set entries. type_of x = TStr \<or> type_of x = TOrderedDict) \<longrightarrow>
        pages_run_validation e (PList entries) = Inr (PList entries))
   \<and> (entries \<noteq> [] \<and> (\<forall>x \<in> set entries. type_of x = TStr \<or> type_of x = TList)
        \<and> (\<exists>x \<in> set entries. type_of x = TList) \<longrightarrow>
        pages_run_validation e (PList entries) = pages_compat_shim e (PList entries))
   \<and> ((\<exists>x \<in> set entries. type_of x \<noteq> TStr \<and> type_of x \<noteq> TOrderedDict)
        \<and> (\<exists>x \<in> set entries. type_of x \<noteq> TStr \<and> type_of x \<noteq> TList) \<longrightarrow>
        pages_run_validation e (PList entries)
          = Inl (ValidationError ''Invalid pages config.'' []))"
proof (intro conjI impI)
  assume "\<forall>entries. value \<noteq> PList entries"
  then show "pages_run_validation e value
        = Inl (ValidationError ''Expected a list, got {0}'' [AType (type_of value)])"
    by (cases "value") (simp_all add: pages_run_validation_def)
next
  show "pages_run_validation e (PList []) = Inr PNone"
    by (simp add: pages_run_validation_def)
next
  assume "entries \<noteq> []
            \<and> (\<forall>x \<in> set entries. type_of x = TStr \<or> type_of x = TOrderedDict)"
  then show "pages_run_validation e (PList entries) = Inr (PList entries)"
    by (auto simp: pages_run_validation_def Let_def)
next
  assume h: "entries \<noteq> [] \<and> (\<forall>x \<in> set entries. type_of x = TStr \<or> type_of x = TList)
        \<and> (\<exists>x \<in> set entries. type_of x = TList)"
  then have "\<not> set (map type_of entries) \<subseteq> set [TStr, TOrderedDict]"
    by auto
  moreover from h have "set (map type_of entries) \<subseteq> set [TStr, TList]"
    by auto
  ultimately
  show "pages_run_validation e (PList entries) = pages_compat_shim e (PList entries)"
    using h by (simp add: pages_run_validation_def Let_def)
next
  assume h: "(\<exists>x \<in> set entries. type_of x \<noteq> TStr \<and> type_of x \<noteq> TOrderedDict)
        \<and> (\<exists>x \<in> set entries. type_of x \<noteq> TStr \<and> type_of x \<noteq> TList)"
  then have "\<not> set (map type_of entries) \<subseteq> set [TStr, TOrderedDict]"
    by auto
  moreover from h have "\<not> set (map type_of entries) \<subseteq> set [TStr, TList]"
    by auto
  moreover from h have "entries \<noteq> []"
    by auto
  ultimately
  show "pages_run_validation e (PList entries)
          = Inl (ValidationError ''Invalid pages config.'' [])"
    by (simp add: pages_run_validation_def Let_def)
qed

text \<open>One value for each of the five cases.\<close>

theorem pages_run_validation_classes_witness:
  "pages_run_validation sample_env (PStr ''index.md'')
     = Inl (ValidationError ''Expected a list, got {0}'' [AType TStr])
   \<and> pages_run_validation sample_env (PList []) = Inr PNone
   \<and> pages_run_validation sample_env
        (PList [PStr ''index.md'', POrderedDict [(''About'', PStr ''about.md'')]])
     = Inr (PList [PStr ''index.md'', POrderedDict [(''About'', PStr ''about.md'')]])
   \<and> pages_run_validation sample_env
        (PList [PStr ''index.md'', PList [PStr ''about.md'', PStr ''About'']])
     = Inr (POrderedDict
              [(''migrated'', PList [PStr ''index.md'', PList [PStr ''about.md'', PStr ''About'']])])
   \<and> pages_run_validation sample_env
        (PList [PList [PStr ''about.md''], POrderedDict [(''About'', PStr ''about.md'')]])
     = Inl (ValidationError ''Invalid pages config.'' [])"
  using
    pages_run_validation_classes
      [of "PStr ''index.md''" sample_env
          "[PStr ''index.md'', POrderedDict [(''About'', PStr ''about.md'')]]"]
    pages_run_validation_classes
      [of "PStr ''index.md''" sample_env
          "[PStr ''index.md'', PList [PStr ''about.md'', PStr ''About'']]"]
    pages_run_validation_classes
      [of "PStr ''index.md''" sample_env
          "[PList [PStr ''about.md''], POrderedDict [(''About'', PStr ''about.md'')]]"]
  by (simp add: sample_env_def)

text \<open>
  C10. A non-empty list of strings only is returned as it is, whatever the migration
  function is: the set of its entry types is inside both accepted shapes, and the test
  for the current one comes first.
\<close>

theorem pages_strings_unchanged:
  assumes "entries \<noteq> []" and "\<forall>x \<in> set entries. type_of x = TStr"
  shows "pages_run_validation (e\<lparr>pages_compat_shim := shim\<rparr>) (PList entries)
           = Inr (PList entries)
         \<and> set (map type_of entries) \<subseteq> set [TStr, TOrderedDict]
         \<and> set (map type_of entries) \<subseteq> set [TStr, TList]"
  using assms by (auto simp: pages_run_validation_def Let_def)

theorem pages_strings_unchanged_witness:
  "pages_run_validation (sample_env\<lparr>pages_compat_shim := (\<lambda>v. Inl TypeError)\<rparr>)
     (PList [PStr ''index.md'', PStr ''about.md''])
   = Inr (PList [PStr ''index.md'', PStr ''about.md''])"
  using pages_strings_unchanged
          [where entries = "[PStr ''index.md'', PStr ''about.md'']" and e = sample_env
             and shim = "\<lambda>v. Inl TypeError"]
  by simp

section \<open>Properties of post-validation\<close>

lemma split_on_first: "\<exists>ws. split_on sep s = takeWhile (\<lambda>c. c \<noteq> sep) s # ws"
  by (induction s) auto

lemma urlsplit_github:
  "urlsplit ''https://github.com/x/y'' = Inr \<lparr>scheme = ''https'', netloc = ''github.com''\<rparr>"
  by code_simp

lemma urlsplit_example:
  "urlsplit ''https://git.example.com/x'' = Inr \<lparr>scheme = ''https'', netloc = ''git.example.com''\<rparr>"
  by code_simp

lemma lower_github: "lower ''github.com'' = ''github.com''"
  by code_simp

lemma lower_example: "lower ''git.example.com'' = ''git.example.com''"
  by code_simp

lemma title_git: "title ''git'' = ''Git''"
  by code_simp

lemma urlsplit_mixed:
  "urlsplit ''https://GitHub.com/mkdocs/mkdocs'' = Inr \<lparr>scheme = ''https'', netloc = ''GitHub.com''\<rparr>"
  by code_simp

lemma lower_mixed: "lower ''GitHub.com'' = ''github.com''"
  by code_simp

lemma repo_url_post_validation_eq:
  assumes "getitem cfg ''repo_url'' = Inr repo_url" and "repo_url \<noteq> PNone"
    and "get cfg ''repo_name'' = PNone" and "urlparse repo_url = Inr parsed"
  shows "repo_url_post_validation cfg key_name =
           Inr (setitem cfg ''repo_name''
                  (PStr (if lower (netloc parsed) = ''github.com'' then ''GitHub''
                         else if lower (netloc parsed) = ''bitbucket.org'' then ''Bitbucket''
                         else title (takeWhile (\<lambda>c. c \<noteq> CHR ''.'') (lower (netloc parsed))))))"
proof -
  obtain ws where "split_on (CHR ''.'') (lower (netloc parsed))
                     = takeWhile (\<lambda>c. c \<noteq> CHR ''.'') (lower (netloc parsed)) # ws"
    using split_on_first by blast
  with assms show ?thesis
    by (simp add: repo_url_post_validation_def Let_def)
qed

text \<open>
  C1, as the code has it. When \<^verbatim>\<open>repo_url\<close> is not None, parses, and \<^verbatim>\<open>repo_name\<close> is
  unset, \<^verbatim>\<open>RepoURL.post_validation\<close> sets \<^verbatim>\<open>repo_name\<close> from the network location of
  the URL in lower case: \<^verbatim>\<open>GitHub\<close> for \<^verbatim>\<open>github.com\<close>, \<^verbatim>\<open>Bitbucket\<close> for
  \<^verbatim>\<open>bitbucket.org\<close>, and otherwise the text before its first dot in title case. So
  \<^verbatim>\<open>https://github.com/x/y\<close> gives \<^verbatim>\<open>GitHub\<close>, and \<^verbatim>\<open>https://git.example.com/x\<close>
  gives \<^verbatim>\<open>Git\<close>, the first label of \<^verbatim>\<open>git.example.com\<close>.
\<close>

theorem repo_name_derivation:
  assumes "getitem cfg ''repo_url'' = Inr repo_url" and "repo_url \<noteq> PNone"
    and "get cfg ''repo_name'' = PNone" and "urlparse repo_url = Inr parsed"
  shows "repo_url_post_validation cfg key_name =
           Inr (setitem cfg ''repo_name''
                  (PStr (if lower (netloc parsed) = ''github.com'' then ''GitHub''
                         else if lower (netloc parsed) = ''bitbucket.org'' then ''Bitbucket''
                         else title (takeWhile (\<lambda>c. c \<noteq> CHR ''.'') (lower (netloc parsed))))))
         \<and> (repo_url = PStr ''https://github.com/x/y'' \<longrightarrow>
              repo_url_post_validation cfg key_name
                = Inr (setitem cfg ''repo_name'' (PStr ''GitHub'')))
         \<and> (repo_url = PStr ''https://git.example.com/x'' \<longrightarrow>
              repo_url_post_validation cfg key_name
                = Inr (setitem cfg ''repo_name'' (PStr ''Git'')))"
proof (intro conjI impI)
  show "repo_url_post_validation cfg key_name =
           Inr (setitem cfg ''repo_name''
                  (PStr (if lower (netloc parsed) = ''github.com'' then ''GitHub''
                         else if lower (netloc parsed) = ''bitbucket.org'' then ''Bitbucket''
                         else title (takeWhile (\<lambda>c. c \<noteq> CHR ''.'') (lower (netloc parsed))))))"
    using assms by (rule repo_url_post_validation_eq)
next
  assume u: "repo_url = PStr ''https://github.com/x/y''"
  with assms(4) have "parsed = \<lparr>scheme = ''https'', netloc = ''github.com''\<rparr>"
    by (simp add: urlsplit_github)
  with repo_url_post_validation_eq [OF assms, of key_name]
  show "repo_url_post_validation cfg key_name = Inr (setitem cfg ''repo_name'' (PStr ''GitHub''))"
    by (simp add: lower_github)
next
  assume u: "repo_url = PStr ''https://git.example.com/x''"
  with assms(4) have "parsed = \<lparr>scheme = ''https'', netloc = ''git.example.com''\<rparr>"
    by (simp add: urlsplit_example)
  with repo_url_post_validation_eq [OF assms, of key_name]
  show "repo_url_post_validation cfg key_name = Inr (setitem cfg ''repo_name'' (PStr ''Git''))"
    by (simp add: lower_example title_git)
qed

theorem repo_name_derivation_witness:
  "repo_url_post_validation
     \<lparr>items = [''repo_url'' \<mapsto> PStr ''https://github.com/x/y'', ''repo_name'' \<mapsto> PNone],
      user_configs = []\<rparr> ''repo_url''
   = Inr (setitem
            \<lparr>items = [''repo_url'' \<mapsto> PStr ''https://github.com/x/y'', ''repo_name'' \<mapsto> PNone],
             user_configs = []\<rparr> ''repo_name'' (PStr ''GitHub''))
   \<and> repo_url_post_validation
     \<lparr>items = [''repo_url'' \<mapsto> PStr ''https://git.example.com/x''], user_configs = []\<rparr>
     ''repo_url''
   = Inr (setitem
            \<lparr>items = [''repo_url'' \<mapsto> PStr ''https://git.example.com/x''], user_configs = []\<rparr>
            ''repo_name'' (PStr ''Git''))
   \<and> repo_url_post_validation
     \<lparr>items = [''repo_url'' \<mapsto> PStr ''https://GitHub.com/mkdocs/mkdocs''], user_configs = []\<rparr>
     ''repo_url''
   = Inr (setitem
            \<lparr>items = [''repo_url'' \<mapsto> PStr ''https://GitHub.com/mkdocs/mkdocs''], user_configs = []\<rparr>
            ''repo_name'' (PStr ''GitHub''))"
  using
    repo_name_derivation
      [of "\<lparr>items = [''repo_url'' \<mapsto> PStr ''https://github.com/x/y'', ''repo_name'' \<mapsto> PNone],
            user_configs = []\<rparr>"
          "PStr ''https://github.com/x/y''" "\<lparr>scheme = ''https'', netloc = ''github.com''\<rparr>"
          "''repo_url''"]
    repo_name_derivation
      [of "\<lparr>items = [''repo_url'' \<mapsto> PStr ''https://git.example.com/x''], user_configs = []\<rparr>"
          "PStr ''https://git.example.com/x''"
          "\<lparr>scheme = ''https'', netloc = ''git.example.com''\<rparr>" "''repo_url''"]
    repo_name_derivation
      [of "\<lparr>items = [''repo_url'' \<mapsto> PStr ''https://GitHub.com/mkdocs/mkdocs''], user_configs = []\<rparr>"
          "PStr ''https://GitHub.com/mkdocs/mkdocs''"
          "\<lparr>scheme = ''https'', netloc = ''GitHub.com''\<rparr>" "''repo_url''"]
  by (simp add: getitem_def get_def urlsplit_github urlsplit_example urlsplit_mixed lower_mixed
                lower_github lower_example title_git)

text \<open>
  C1 as the specification states it fails on its second example: the name derived from
  \<^verbatim>\<open>https://git.example.com/x\<close> is \<^verbatim>\<open>Git\<close>, not \<^verbatim>\<open>Example\<close>.
\<close>

theorem repo_name_example_counterexample:
  "repo_url_post_validation
     \<lparr>items = [''repo_url'' \<mapsto> PStr ''https://git.example.com/x'', ''repo_name'' \<mapsto> PNone],
      user_configs = []\<rparr> ''repo_url''
   = Inr (setitem
            \<lparr>items = [''repo_url'' \<mapsto> PStr ''https://git.example.com/x'', ''repo_name'' \<mapsto> PNone],
             user_configs = []\<rparr> ''repo_name'' (PStr ''Git''))
   \<and> get (setitem
            \<lparr>items = [''repo_url'' \<mapsto> PStr ''https://git.example.com/x'', ''repo_name'' \<mapsto> PNone],
             user_configs = []\<rparr> ''repo_name'' (PStr ''Git'')) ''repo_name''
     \<noteq> PStr ''Example''"
proof -
  have "split_on (CHR ''.'') ''git.example.com'' = [''git'', ''example'', ''com'']"
    by code_simp
  then show ?thesis
    by (simp add: repo_url_post_validation_def getitem_def get_def setitem_def urlsplit_example
                  lower_example title_git Let_def)
qed

text \<open>
  C4. With strings D for \<^verbatim>\<open>docs_dir\<close> and S for \<^verbatim>\<open>site_dir\<close>,
  \<^verbatim>\<open>SiteDir.post_validation\<close> raises a ValidationError when S is a prefix of D (the docs
  directory is within the site directory), another one, with a different message, when D
  is a prefix of S, and returns with the configuration as it was when neither is a prefix
  of the other.
\<close>

theorem site_dir_containment:
  assumes "items cfg ''docs_dir'' = Some (PStr D)" and "items cfg ''site_dir'' = Some (PStr S)"
  shows "site_dir_post_validation cfg key_name =
           (if prefix S D then
              Inl (ValidationError ''The 'docs_dir' can't be within the 'site_dir'.'' [])
            else if prefix D S then
              Inl (ValidationError ''The 'site_dir' can't be within the 'docs_dir'.'' [])
            else Inr cfg)
         \<and> ValidationError ''The 'docs_dir' can't be within the 'site_dir'.'' []
             \<noteq> ValidationError ''The 'site_dir' can't be within the 'docs_dir'.'' []"
proof -
  have sw: "\<And>s p. startswith s p \<longleftrightarrow> prefix p s"
    by (auto simp: startswith_def prefix_def) (metis append_eq_conv_conj)
  show ?thesis
    using assms
    by (simp add: site_dir_post_validation_def getitem_def py_startswith_def sw)
qed

theorem site_dir_containment_witness:
  "site_dir_post_validation
     \<lparr>items = [''docs_dir'' \<mapsto> PStr ''/p/docs'', ''site_dir'' \<mapsto> PStr ''/p/docs/site''],
      user_configs = []\<rparr> ''site_dir''
     = Inl (ValidationError ''The 'site_dir' can't be within the 'docs_dir'.'' [])
   \<and> site_dir_post_validation
     \<lparr>items = [''docs_dir'' \<mapsto> PStr ''/p/site/docs'', ''site_dir'' \<mapsto> PStr ''/p/site''],
      user_configs = []\<rparr> ''site_dir''
     = Inl (ValidationError ''The 'docs_dir' can't be within the 'site_dir'.'' [])
   \<and> site_dir_post_validation
     \<lparr>items = [''docs_dir'' \<mapsto> PStr ''/p/docs'', ''site_dir'' \<mapsto> PStr ''/p/site''],
      user_configs = []\<rparr> ''site_dir''
     = Inr \<lparr>items = [''docs_dir'' \<mapsto> PStr ''/p/docs'', ''site_dir'' \<mapsto> PStr ''/p/site''],
            user_configs = []\<rparr>"
  using
    site_dir_containment
      [of "\<lparr>items = [''docs_dir'' \<mapsto> PStr ''/p/docs'', ''site_dir'' \<mapsto> PStr ''/p/docs/site''],
            user_configs = []\<rparr>" "''/p/docs''" "''/p/docs/site''" "''site_dir''"]
    site_dir_containment
      [of "\<lparr>items = [''docs_dir'' \<mapsto> PStr ''/p/site/docs'', ''site_dir'' \<mapsto> PStr ''/p/site''],
            user_configs = []\<rparr>" "''/p/site/docs''" "''/p/site''" "''site_dir''"]
    site_dir_containment
      [of "\<lparr>items = [''docs_dir'' \<mapsto> PStr ''/p/docs'', ''site_dir'' \<mapsto> PStr ''/p/site''],
            user_configs = []\<rparr>" "''/p/docs''" "''/p/site''" "''site_dir''"]
  by simp

lemma package_dir_sample:
  "package_dir sample_env = ''/usr/lib/python3/site-packages/mkdocs''"
  by code_simp

lemma join_sample_theme:
  "join ''/usr/lib/python3/site-packages/mkdocs'' [''themes'', ''mkdocs'']
     = ''/usr/lib/python3/site-packages/mkdocs/themes/mkdocs''"
  by code_simp

lemma join_sample_search:
  "join ''/usr/lib/python3/site-packages/mkdocs'' [''assets'', ''search'']
     = ''/usr/lib/python3/site-packages/mkdocs/assets/search''"
  by code_simp

lemma join_sample_templates:
  "join ''/usr/lib/python3/site-packages/mkdocs'' [''templates'']
     = ''/usr/lib/python3/site-packages/mkdocs/templates''"
  by code_simp

lemma theme_dir_post_validation_eq:
  assumes "items cfg ''theme'' = Some (PStr theme)"
    and "items cfg ''theme_dir'' = Some override"
  shows "theme_dir_post_validation e cfg key_name =
           Inr (setitem
                  (setitem cfg ''mkdocs_templates''
                     (PStr (join (package_dir e) [''templates''])))
                  ''theme_dir''
                  (PList
                     (if override = PNone then
                        [PStr (join (package_dir e) [''themes'', theme]),
                         PStr (join (package_dir e) [''assets'', ''search''])]
                      else if \<exists>c \<in> set (user_configs cfg). ''theme'' \<in> dom c then
                        [override, PStr (join (package_dir e) [''themes'', theme]),
                         PStr (join (package_dir e) [''assets'', ''search''])]
                      else
                        [override, PStr (join (package_dir e) [''assets'', ''search''])])))"
  using assms
  by (auto simp: theme_dir_post_validation_def getitem_def setitem_def py_join_def Let_def
                 dom_def)

text \<open>
  C5. With a theme name in the configuration, \<^verbatim>\<open>ThemeDir.post_validation\<close> sets
  \<^verbatim>\<open>theme_dir\<close> to one of three lists: the built-in theme directory and the search
  assets when \<^verbatim>\<open>theme_dir\<close> was None; the override, the built-in theme directory and the
  search assets when there is an override and some mapping of \<^verbatim>\<open>user_configs\<close> has the
  key \<^verbatim>\<open>theme\<close>; the override and the search assets when there is an override and no
  such mapping. The search assets directory is the last element of each.
\<close>

theorem theme_dir_shapes:
  assumes "items cfg ''theme'' = Some (PStr theme)"
    and "items cfg ''theme_dir'' = Some override"
  shows "theme_dir_post_validation e cfg key_name =
           Inr (setitem
                  (setitem cfg ''mkdocs_templates''
                     (PStr (join (package_dir e) [''templates''])))
                  ''theme_dir''
                  (PList
                     (if override = PNone then
                        [PStr (join (package_dir e) [''themes'', theme]),
                         PStr (join (package_dir e) [''assets'', ''search''])]
                      else if \<exists>c \<in> set (user_configs cfg). ''theme'' \<in> dom c then
                        [override, PStr (join (package_dir e) [''themes'', theme]),
                         PStr (join (package_dir e) [''assets'', ''search''])]
                      else
                        [override, PStr (join (package_dir e) [''assets'', ''search''])])))"
  using assms by (rule theme_dir_post_validation_eq)

text \<open>The three shapes, in the sample environment.\<close>

theorem theme_dir_shapes_witness:
  "theme_dir_post_validation sample_env
     \<lparr>items = [''theme'' \<mapsto> PStr ''mkdocs'', ''theme_dir'' \<mapsto> PNone], user_configs = []\<rparr>
     ''theme_dir''
   = Inr (setitem
            (setitem
               \<lparr>items = [''theme'' \<mapsto> PStr ''mkdocs'', ''theme_dir'' \<mapsto> PNone],
                user_configs = []\<rparr>
               ''mkdocs_templates'' (PStr ''/usr/lib/python3/site-packages/mkdocs/templates''))
            ''theme_dir''
            (PList [PStr ''/usr/lib/python3/site-packages/mkdocs/themes/mkdocs'',
                    PStr ''/usr/lib/python3/site-packages/mkdocs/assets/search'']))
   \<and> theme_dir_post_validation sample_env
     \<lparr>items = [''theme'' \<mapsto> PStr ''mkdocs'',
               ''theme_dir'' \<mapsto> PStr ''/home/user/project/custom''],
      user_configs = [[''theme'' \<mapsto> PStr ''mkdocs'', ''theme_dir'' \<mapsto> PStr ''custom'']]\<rparr>
     ''theme_dir''
   = Inr (setitem
            (setitem
               \<lparr>items = [''theme'' \<mapsto> PStr ''mkdocs'',
                         ''theme_dir'' \<mapsto> PStr ''/home/user/project/custom''],
                user_configs =
                  [[''theme'' \<mapsto> PStr ''mkdocs'', ''theme_dir'' \<mapsto> PStr ''custom'']]\<rparr>
               ''mkdocs_templates'' (PStr ''/usr/lib/python3/site-packages/mkdocs/templates''))
            ''theme_dir''
            (PList [PStr ''/home/user/project/custom'',
                    PStr ''/usr/lib/python3/site-packages/mkdocs/themes/mkdocs'',
                    PStr ''/usr/lib/python3/site-packages/mkdocs/assets/search'']))
   \<and> theme_dir_post_validation sample_env
     \<lparr>items = [''theme'' \<mapsto> PStr ''mkdocs'',
               ''theme_dir'' \<mapsto> PStr ''/home/user/project/custom''],
      user_configs = [[''site_name'' \<mapsto> PStr ''My Docs'']]\<rparr>
     ''theme_dir''
   = Inr (setitem
            (setitem
               \<lparr>items = [''theme'' \<mapsto> PStr ''mkdocs'',
                         ''theme_dir'' \<mapsto> PStr ''/home/user/project/custom''],
                user_configs = [[''site_name'' \<mapsto> PStr ''My Docs'']]\<rparr>
               ''mkdocs_templates'' (PStr ''/usr/lib/python3/site-packages/mkdocs/templates''))
            ''theme_dir''
            (PList [PStr ''/home/user/project/custom'',
                    PStr ''/usr/lib/python3/site-packages/mkdocs/assets/search'']))"
  using
    theme_dir_shapes
      [of "\<lparr>items = [''theme'' \<mapsto> PStr ''mkdocs'', ''theme_dir'' \<mapsto> PNone],
            user_configs = []\<rparr>"
          "''mkdocs''" PNone sample_env "''theme_dir''"]
    theme_dir_shapes
      [of "\<lparr>items = [''theme'' \<mapsto> PStr ''mkdocs'',
                      ''theme_dir'' \<mapsto> PStr ''/home/user/project/custom''],
            user_configs =
              [[''theme'' \<mapsto> PStr ''mkdocs'', ''theme_dir'' \<mapsto> PStr ''custom'']]\<rparr>"
          "''mkdocs''" "PStr ''/home/user/project/custom''" sample_env "''theme_dir''"]
    theme_dir_shapes
      [of "\<lparr>items = [''theme'' \<mapsto> PStr ''mkdocs'',
                      ''theme_dir'' \<mapsto> PStr ''/home/user/project/custom''],
            user_configs = [[''site_name'' \<mapsto> PStr ''My Docs'']]\<rparr>"
          "''mkdocs''" "PStr ''/home/user/project/custom''" sample_env "''theme_dir''"]
  by (simp add: package_dir_sample join_sample_theme join_sample_search join_sample_templates)

text \<open>
  C6, as the code has it. The mappings of \<^verbatim>\<open>user_configs\<close> are searched for the key
  \<^verbatim>\<open>theme\<close> itself (\<^verbatim>\<open>'theme' in c\<close> on a mapping), not for keys that contain that
  text. With a \<^verbatim>\<open>theme_dir\<close> that is not None, the built-in theme directory is left out
  of the list exactly when no mapping has the key \<^verbatim>\<open>theme\<close>, and it follows the override
  when some mapping has it.
\<close>

theorem theme_dir_builtin_kept_iff:
  assumes "items cfg ''theme'' = Some (PStr theme)"
    and "items cfg ''theme_dir'' = Some override"
    and "override \<noteq> PNone"
  shows "theme_dir_post_validation e cfg key_name =
           Inr (setitem
                  (setitem cfg ''mkdocs_templates''
                     (PStr (join (package_dir e) [''templates''])))
                  ''theme_dir''
                  (PList
                     (if \<exists>c \<in> set (user_configs cfg). ''theme'' \<in> dom c then
                        [override, PStr (join (package_dir e) [''themes'', theme]),
                         PStr (join (package_dir e) [''assets'', ''search''])]
                      else
                        [override, PStr (join (package_dir e) [''assets'', ''search''])])))"
  using theme_dir_post_validation_eq [OF assms(1,2), of e key_name] assms(3) by simp

theorem theme_dir_builtin_kept_iff_witness:
  "theme_dir_post_validation sample_env
     \<lparr>items = [''theme'' \<mapsto> PStr ''mkdocs'',
               ''theme_dir'' \<mapsto> PStr ''/home/user/project/custom''],
      user_configs = [[''site_name'' \<mapsto> PStr ''My Docs''], [''theme'' \<mapsto> PStr ''mkdocs'']]\<rparr>
     ''theme_dir''
   = Inr (setitem
            (setitem
               \<lparr>items = [''theme'' \<mapsto> PStr ''mkdocs'',
                         ''theme_dir'' \<mapsto> PStr ''/home/user/project/custom''],
                user_configs =
                  [[''site_name'' \<mapsto> PStr ''My Docs''], [''theme'' \<mapsto> PStr ''mkdocs'']]\<rparr>
               ''mkdocs_templates'' (PStr ''/usr/lib/python3/site-packages/mkdocs/templates''))
            ''theme_dir''
            (PList [PStr ''/home/user/project/custom'',
                    PStr ''/usr/lib/python3/site-packages/mkdocs/themes/mkdocs'',
                    PStr ''/usr/lib/python3/site-packages/mkdocs/assets/search'']))"
  using
    theme_dir_builtin_kept_iff
      [of "\<lparr>items = [''theme'' \<mapsto> PStr ''mkdocs'',
                      ''theme_dir'' \<mapsto> PStr ''/home/user/project/custom''],
            user_configs =
              [[''site_name'' \<mapsto> PStr ''My Docs''], [''theme'' \<mapsto> PStr ''mkdocs'']]\<rparr>"
          "''mkdocs''" "PStr ''/home/user/project/custom''" sample_env "''theme_dir''"]
  by (simp add: package_dir_sample join_sample_theme join_sample_search join_sample_templates)

text \<open>
  C6 as the specification states it fails when the only loaded mapping has the key
  \<^verbatim>\<open>theme_dir\<close>: that key contains the text \<^verbatim>\<open>theme\<close>, and the built-in theme
  directory is left out all the same.
\<close>

theorem theme_substring_counterexample:
  "is_substring ''theme'' ''theme_dir''
   \<and> ''theme_dir'' \<in> dom [''theme_dir'' \<mapsto> PStr ''custom'']
   \<and> theme_dir_post_validation sample_env
        \<lparr>items = [''theme'' \<mapsto> PStr ''mkdocs'',
                  ''theme_dir'' \<mapsto> PStr ''/home/user/project/custom''],
         user_configs = [[''theme_dir'' \<mapsto> PStr ''custom'']]\<rparr>
        ''theme_dir''
     = Inr (setitem
              (setitem
                 \<lparr>items = [''theme'' \<mapsto> PStr ''mkdocs'',
                           ''theme_dir'' \<mapsto> PStr ''/home/user/project/custom''],
                  user_configs = [[''theme_dir'' \<mapsto> PStr ''custom'']]\<rparr>
                 ''mkdocs_templates''
                 (PStr ''/usr/lib/python3/site-packages/mkdocs/templates''))
              ''theme_dir''
              (PList [PStr ''/home/user/project/custom'',
                      PStr ''/usr/lib/python3/site-packages/mkdocs/assets/search'']))"
proof -
  have "is_substring ''theme'' ''theme_dir''"
    by (simp add: startswith_def)
  then show ?thesis
    by (simp add: theme_dir_post_validation_def getitem_def setitem_def py_join_def Let_def
                  package_dir_sample join_sample_theme join_sample_search
                  join_sample_templates)
qed

lemma foldl_pages_step:
  "foldl pages_step acc found
     = rev (filter is_index found) @ acc @ filter (\<lambda>f. \<not> is_index f) found"
  by (induction found arbitrary: acc) (simp_all add: pages_step_def is_index_def)

lemma walk_tree_Folder:
  "walk_tree file_match dirpath (Folder fnames dirs)
     = filter file_match (map (relpath_in dirpath) (sort fnames))
       @ concat (map (\<lambda>(name, d). walk_tree file_match (dirpath @ [name]) d) dirs)"
  by (induction dirs) (auto simp: walk_tree_def)

lemma sort_example: "sort [''index.md'', ''a.md''] = [''a.md'', ''index.md'']"
  by code_simp

lemma splitext_examples:
  "splitext_root ''index.md'' = ''index''" "splitext_root ''a.md'' = ''a''"
  "splitext_root ''b/c.md'' = ''b/c''"
  by code_simp+

lemma pages_post_validation_eq:
  assumes "items cfg key_name = Some PNone" and "items cfg ''docs_dir'' = Some (PStr d)"
  shows "pages_post_validation e cfg key_name =
           Inr (setitem cfg key_name
                  (nest_paths e
                     (rev (filter is_index (walk_docs_dir e (is_markdown_file e) d))
                      @ filter (\<lambda>f. \<not> is_index f) (walk_docs_dir e (is_markdown_file e) d))))"
  using assms
  by (simp add: pages_post_validation_def getitem_def py_walk_docs_dir_def foldl_pages_step)

lemma walk_sample:
  "walk_docs_dir sample_env (is_markdown_file sample_env) ''/home/user/project/docs''
     = [''a.md'', ''index.md'', ''b/c.md'']"
  by code_simp

lemma sample_markdown:
  "is_markdown_file sample_env ''index.md''" "is_markdown_file sample_env ''a.md''"
  "is_markdown_file sample_env ''b/c.md''"
  by code_simp+

lemma listing_sample:
  "listing sample_env ''/home/user/project/docs''
     = Some (Folder [''index.md'', ''a.md''] [(''b'', Folder [''c.md''] [])])"
  by (simp add: sample_env_def)

text \<open>
  C8. \<^verbatim>\<open>NumPages.post_validation\<close> leaves the configuration as it is when its field is
  not None. Otherwise it sets the field to whether the length of \<^verbatim>\<open>pages\<close> is above the
  threshold, which for the default threshold 1 is whether there are two pages or more,
  and to False, with no error, when \<^verbatim>\<open>pages\<close> has no length, as None or a number.
\<close>

theorem num_pages_threshold:
  assumes "items cfg key_name = Some current" and "items cfg ''pages'' = Some pages"
  shows "(current \<noteq> PNone \<longrightarrow> num_pages_post_validation at_lest cfg key_name = Inr cfg)
         \<and> (current = PNone \<and> py_len pages = Inr n \<longrightarrow>
              num_pages_post_validation at_lest cfg key_name
                = Inr (setitem cfg key_name (PBool (at_lest < int n)))
              \<and> post_validation e num_pages_default cfg key_name
                = Inr (setitem cfg key_name (PBool (2 \<le> n))))
         \<and> (current = PNone \<and> py_len pages = Inl err \<longrightarrow>
              num_pages_post_validation at_lest cfg key_name
                = Inr (setitem cfg key_name (PBool False)))
         \<and> py_len PNone = Inl TypeError \<and> py_len (PInt i) = Inl TypeError
         \<and> py_len (PList entries) = Inr (length entries)"
proof -
  have "py_len pages = Inl err \<Longrightarrow> err = TypeError"
    by (cases pages) simp_all
  moreover have "(1 < int n) = (2 \<le> n)"
    by auto
  ultimately show ?thesis
    using assms
    by (auto simp: num_pages_post_validation_def num_pages_default_def getitem_def)
qed

text \<open>Zero pages, one and two with the default threshold; no pages at all; a field already set.\<close>

theorem num_pages_threshold_witness:
  "post_validation sample_env num_pages_default
     \<lparr>items = [''pages'' \<mapsto> PList [], ''include_nav'' \<mapsto> PNone], user_configs = []\<rparr>
     ''include_nav''
   = Inr (setitem
            \<lparr>items = [''pages'' \<mapsto> PList [], ''include_nav'' \<mapsto> PNone], user_configs = []\<rparr>
            ''include_nav'' (PBool False))
   \<and> post_validation sample_env num_pages_default
     \<lparr>items = [''pages'' \<mapsto> PList [PStr ''index.md''], ''include_nav'' \<mapsto> PNone],
      user_configs = []\<rparr> ''include_nav''
   = Inr (setitem
            \<lparr>items = [''pages'' \<mapsto> PList [PStr ''index.md''], ''include_nav'' \<mapsto> PNone],
             user_configs = []\<rparr> ''include_nav'' (PBool False))
   \<and> post_validation sample_env num_pages_default
     \<lparr>items = [''pages'' \<mapsto> PList [PStr ''index.md'', PStr ''a.md''], ''include_nav'' \<mapsto> PNone],
      user_configs = []\<rparr> ''include_nav''
   = Inr (setitem
            \<lparr>items = [''pages'' \<mapsto> PList [PStr ''index.md'', PStr ''a.md''],
                      ''include_nav'' \<mapsto> PNone],
             user_configs = []\<rparr> ''include_nav'' (PBool True))
   \<and> num_pages_post_validation 1
     \<lparr>items = [''pages'' \<mapsto> PNone, ''include_nav'' \<mapsto> PNone], user_configs = []\<rparr>
     ''include_nav''
   = Inr (setitem
            \<lparr>items = [''pages'' \<mapsto> PNone, ''include_nav'' \<mapsto> PNone], user_configs = []\<rparr>
            ''include_nav'' (PBool False))
   \<and> num_pages_post_validation 1
     \<lparr>items = [''pages'' \<mapsto> PList [PStr ''index.md'', PStr ''a.md''],
               ''include_nav'' \<mapsto> PBool False], user_configs = []\<rparr>
     ''include_nav''
   = Inr \<lparr>items = [''pages'' \<mapsto> PList [PStr ''index.md'', PStr ''a.md''],
                    ''include_nav'' \<mapsto> PBool False], user_configs = []\<rparr>"
  using
    num_pages_threshold
      [where cfg = "\<lparr>items = [''pages'' \<mapsto> PList [], ''include_nav'' \<mapsto> PNone],
                     user_configs = []\<rparr>"
         and key_name = "''include_nav''" and current = PNone and pages = "PList []"
         and at_lest = 1 and n = 0 and e = sample_env and err = TypeError]
    num_pages_threshold
      [where cfg = "\<lparr>items = [''pages'' \<mapsto> PList [PStr ''index.md''], ''include_nav'' \<mapsto> PNone],
                     user_configs = []\<rparr>"
         and key_name = "''include_nav''" and current = PNone
         and pages = "PList [PStr ''index.md'']"
         and at_lest = 1 and n = 1 and e = sample_env and err = TypeError]
    num_pages_threshold
      [where cfg = "\<lparr>items = [''pages'' \<mapsto> PList [PStr ''index.md'', PStr ''a.md''],
                               ''include_nav'' \<mapsto> PNone], user_configs = []\<rparr>"
         and key_name = "''include_nav''" and current = PNone
         and pages = "PList [PStr ''index.md'', PStr ''a.md'']"
         and at_lest = 1 and n = 2 and e = sample_env and err = TypeError]
    num_pages_threshold
      [where cfg = "\<lparr>items = [''pages'' \<mapsto> PNone, ''include_nav'' \<mapsto> PNone],
                     user_configs = []\<rparr>"
         and key_name = "''include_nav''" and current = PNone and pages = PNone
         and at_lest = 1 and n = 0 and e = sample_env and err = TypeError]
    num_pages_threshold
      [where cfg = "\<lparr>items = [''pages'' \<mapsto> PList [PStr ''index.md'', PStr ''a.md''],
                               ''include_nav'' \<mapsto> PBool False], user_configs = []\<rparr>"
         and key_name = "''include_nav''" and current = "PBool False"
         and pages = "PList [PStr ''index.md'', PStr ''a.md'']"
         and at_lest = 1 and n = 2 and e = sample_env and err = TypeError]
  by simp

lemma walk_nested:
  "walk_docs_dir nested_index_env (is_markdown_file nested_index_env)
     ''/home/user/project/docs''
     = [''a.md'', ''b/index.md'']"
  by code_simp

lemma splitext_nested:
  "splitext_root ''b/index.md'' = ''b/index''"
  "splitext_root (basename ''b/index.md'') = ''index''"
  by code_simp+

text \<open>
  C9, as the code has it. When its field is None, \<^verbatim>\<open>Pages.post_validation\<close> sets it to
  \<^verbatim>\<open>nest_paths\<close> of the files found by the walk of the docs directory, those whose path
  relative to the docs directory is \<^verbatim>\<open>index\<close> once the extension is taken off put in
  front of all the others. The walk is depth first: the files of a directory in sorted
  order of their names, then each subdirectory with everything below it. For a tree with
  \<^verbatim>\<open>index.md\<close>, \<^verbatim>\<open>a.md\<close> and \<^verbatim>\<open>b/c.md\<close> the walk finds \<^verbatim>\<open>a.md\<close>, \<^verbatim>\<open>index.md\<close>,
  \<^verbatim>\<open>b/c.md\<close> and the list given to \<^verbatim>\<open>nest_paths\<close> is \<^verbatim>\<open>index.md\<close>, \<^verbatim>\<open>a.md\<close>,
  \<^verbatim>\<open>b/c.md\<close>.
\<close>

theorem pages_auto_population:
  assumes "items cfg key_name = Some PNone" and "items cfg ''docs_dir'' = Some (PStr d)"
    and "found = walk_docs_dir e (is_markdown_file e) d"
  shows "pages_post_validation e cfg key_name =
           Inr (setitem cfg key_name
                  (nest_paths e
                     (rev (filter is_index found) @ filter (\<lambda>f. \<not> is_index f) found)))
         \<and> (listing e d = Some (Folder fnames dirs) \<longrightarrow>
              found = filter (is_markdown_file e) (map (relpath_in []) (sort fnames))
                      @ concat (map (\<lambda>(name, sub). walk_tree (is_markdown_file e) [name] sub)
                                    dirs))
         \<and> (listing e d = Some (Folder [''index.md'', ''a.md''] [(''b'', Folder [''c.md''] [])])
               \<and> is_markdown_file e ''index.md'' \<and> is_markdown_file e ''a.md''
               \<and> is_markdown_file e ''b/c.md'' \<longrightarrow>
              found = [''a.md'', ''index.md'', ''b/c.md'']
              \<and> pages_post_validation e cfg key_name =
                  Inr (setitem cfg key_name
                         (nest_paths e [''index.md'', ''a.md'', ''b/c.md''])))"
proof -
  have eq: "pages_post_validation e cfg key_name =
           Inr (setitem cfg key_name
                  (nest_paths e
                     (rev (filter is_index found) @ filter (\<lambda>f. \<not> is_index f) found)))"
    using pages_post_validation_eq [OF assms(1,2), of e] assms(3) by simp
  have walk: "found = filter (is_markdown_file e) (map (relpath_in []) (sort fnames))
                      @ concat (map (\<lambda>(name, sub). walk_tree (is_markdown_file e) [name] sub)
                                    dirs)"
    if "listing e d = Some (Folder fnames dirs)"
    using that assms(3) by (simp add: walk_docs_dir_def walk_tree_Folder)
  have ex: "found = [''a.md'', ''index.md'', ''b/c.md'']
              \<and> pages_post_validation e cfg key_name =
                  Inr (setitem cfg key_name
                         (nest_paths e [''index.md'', ''a.md'', ''b/c.md'']))"
    if h: "listing e d = Some (Folder [''index.md'', ''a.md''] [(''b'', Folder [''c.md''] [])])
               \<and> is_markdown_file e ''index.md'' \<and> is_markdown_file e ''a.md''
               \<and> is_markdown_file e ''b/c.md''"
  proof -
    have f: "found = [''a.md'', ''index.md'', ''b/c.md'']"
      using h assms(3)
      by (simp add: walk_docs_dir_def walk_tree_Folder sort_example relpath_in_def)
    with eq show ?thesis
      by (simp add: is_index_def splitext_examples)
  qed
  from eq walk ex show ?thesis by blast
qed

theorem pages_auto_population_witness:
  "pages_post_validation sample_env
     \<lparr>items = [''docs_dir'' \<mapsto> PStr ''/home/user/project/docs'', ''pages'' \<mapsto> PNone],
      user_configs = []\<rparr> ''pages''
   = Inr (setitem
            \<lparr>items = [''docs_dir'' \<mapsto> PStr ''/home/user/project/docs'', ''pages'' \<mapsto> PNone],
             user_configs = []\<rparr> ''pages''
            (nest_paths sample_env [''index.md'', ''a.md'', ''b/c.md'']))"
proof -
  have a: "items \<lparr>items = [''docs_dir'' \<mapsto> PStr ''/home/user/project/docs'',
                             ''pages'' \<mapsto> PNone], user_configs = []\<rparr> ''pages'' = Some PNone"
    by simp
  have b: "items \<lparr>items = [''docs_dir'' \<mapsto> PStr ''/home/user/project/docs'',
                             ''pages'' \<mapsto> PNone], user_configs = []\<rparr> ''docs_dir''
             = Some (PStr ''/home/user/project/docs'')"
    by simp
  note t = pages_auto_population
      [where found = "[''a.md'', ''index.md'', ''b/c.md'']" and e = sample_env
         and fnames = "[''index.md'', ''a.md'']" and dirs = "[(''b'', Folder [''c.md''] [])]",
       OF a b walk_sample [symmetric]]
  from t [THEN conjunct2, THEN conjunct2] listing_sample sample_markdown
  show ?thesis by blast
qed

text \<open>
  C9 as the specification states it fails on an index file inside a subdirectory: the
  name of \<^verbatim>\<open>b/index.md\<close> without its extension is \<^verbatim>\<open>index\<close>, and the file stays behind
  \<^verbatim>\<open>a.md\<close>, where the walk found it.
\<close>

theorem nested_index_counterexample:
  "splitext_root (basename ''b/index.md'') = ''index''
   \<and> pages_post_validation nested_index_env
        \<lparr>items = [''docs_dir'' \<mapsto> PStr ''/home/user/project/docs'', ''pages'' \<mapsto> PNone],
         user_configs = []\<rparr> ''pages''
     = Inr (setitem
              \<lparr>items = [''docs_dir'' \<mapsto> PStr ''/home/user/project/docs'', ''pages'' \<mapsto> PNone],
               user_configs = []\<rparr> ''pages''
              (nest_paths nested_index_env [''a.md'', ''b/index.md'']))"
  by (simp add: pages_post_validation_def getitem_def py_walk_docs_dir_def walk_nested
                pages_step_def splitext_examples splitext_nested)

end
